theory Spec2Isabelle
  imports Main "HOL-Library.Word"
begin

section \<open>Time, durations and the controller's constants\<close>

text \<open>
  Go's \<^verbatim>\<open>time.Duration\<close> is an \<^verbatim>\<open>int64\<close> count of nanoseconds; its arithmetic wraps
  around. An instant (\<^verbatim>\<open>time.Time\<close>, \<^verbatim>\<open>metav1.Time\<close>) is modelled as its wall-clock
  position on the time line, an integer count of nanoseconds: \<^verbatim>\<open>Time.Add\<close> moves it by
  the signed value of the duration and \<^verbatim>\<open>Time.After\<close> is the strict order. The range
  of \<^verbatim>\<open>time.Time\<close> (hundreds of billions of years) is far beyond what two additions of
  a duration (at most about 292 years each) to a timestamp can leave, so the instant
  itself is not bounded. Every clock reading of the source (\<^verbatim>\<open>time.Now()\<close>,
  \<^verbatim>\<open>metav1.Now()\<close>) is an explicit argument.
\<close>

type_synonym int32 = "32 word"
type_synonym int64 = "64 word"
type_synonym Duration = "64 word"
type_synonym Time = int

definition Second :: Duration where
  "Second = 1000000000"

definition Time_Add :: "Time \<Rightarrow> Duration \<Rightarrow> Time" where
  "Time_Add t d = t + sint d"

definition Time_After :: "Time \<Rightarrow> Time \<Rightarrow> bool" where
  "Time_After t u = (u < t)"

definition RsyncPeriod :: Duration where
  "RsyncPeriod = 60 * Second"

definition ErrorFallbackPeriod :: Duration where
  "ErrorFallbackPeriod = 5 * Second"

definition DefaultTimeoutSeconds :: int32 where
  "DefaultTimeoutSeconds = 600"

section \<open>The Recommendation object\<close>

text \<open>
  Modelled from the spec: the API types (\<^verbatim>\<open>Recommendation\<close> with its spec and status
  of package \<^verbatim>\<open>analysis/v1alpha1\<close>, \<^verbatim>\<open>metav1.Condition\<close>) are declared outside this
  package. The records hold the fields the spec's data model lists and the controller
  reads or writes, under the names the controller uses. \<^verbatim>\<open>TimeoutSeconds\<close> is a
  \<^verbatim>\<open>*int32\<close> (it is assigned to a variable initialised with
  \<^verbatim>\<open>DefaultTimeoutSeconds = int32(600)\<close>). \<^verbatim>\<open>PeriodSeconds\<close> is a pointer to a 64-bit
  integer; the conversion \<^verbatim>\<open>time.Duration(...)\<close> keeps its bits. A nil pointer is
  \<open>None\<close>. The completion strategy type is a string type with the two named values.
  The two recommendation payloads are opaque to the controller and stay type parameters.
\<close>

datatype ConditionStatus = ConditionTrue | ConditionFalse | ConditionUnknown

record Condition =
  Type :: string
  CondStatus :: ConditionStatus
  ObservedGeneration :: int64
  LastTransitionTime :: Time
  Reason :: string
  Message :: string

record ('rr, 'hpa) RecommendationStatus =
  ResourceRequest :: 'rr
  EffectiveHPA :: 'hpa
  Conditions :: "Condition list"
  LastUpdateTime :: Time
  LastSuccessfulTime :: "Time option"

record CompletionStrategy =
  CompletionStrategyType :: string
  PeriodSeconds :: "int64 option"

record RecommendationSpec =
  CompletionStrategy :: CompletionStrategy
  TimeoutSeconds :: "int32 option"

record ('rr, 'hpa) Recommendation =
  Namespace :: string
  Name :: string
  CreationTimestamp :: Time
  DeletionTimestamp :: "Time option"
  Spec :: RecommendationSpec
  Status :: "('rr, 'hpa) RecommendationStatus"

definition CompletionStrategyOnce :: string where
  "CompletionStrategyOnce = ''Once''"

definition CompletionStrategyPeriodical :: string where
  "CompletionStrategyPeriodical = ''Periodical''"

section \<open>NeedRecommend\<close>

text \<open>
  The function returns the pair \<^verbatim>\<open>(needRecommend, needResync)\<close>. Reconcile reads
  \<open>(True, _)\<close> as "run the recommender", \<open>(False, True)\<close> as "requeue after
  RsyncPeriod" and \<open>(False, False)\<close> as "nothing happens". Dereferencing a nil
  \<^verbatim>\<open>PeriodSeconds\<close> panics; the panic is the \<open>Inl\<close> result.
\<close>

datatype panic = NilPointerDereference

definition timeoutSeconds_of :: "('rr, 'hpa) Recommendation \<Rightarrow> int32" where
  "timeoutSeconds_of recommendation =
     (case TimeoutSeconds (Spec recommendation) of
        None \<Rightarrow> DefaultTimeoutSeconds
      | Some t \<Rightarrow> t)"

definition NeedRecommend_Periodical ::
  "('rr, 'hpa) Recommendation \<Rightarrow> int32 \<Rightarrow> Time \<Rightarrow> panic + (bool \<times> bool)" where
  "NeedRecommend_Periodical recommendation timeoutSeconds now =
     (if CompletionStrategyType (CompletionStrategy (Spec recommendation)) = CompletionStrategyPeriodical
      then
        (case LastSuccessfulTime (Status recommendation) of
           None \<Rightarrow> Inr (True, False)
         | Some planingRecommendTime \<Rightarrow>
             (case PeriodSeconds (CompletionStrategy (Spec recommendation)) of
                None \<Rightarrow> Inl NilPointerDereference
              | Some periodSeconds \<Rightarrow>
                  if Time_After now
                       (Time_Add (Time_Add planingRecommendTime (periodSeconds * Second))
                          (scast timeoutSeconds * Second))
                  then Inr (False, True)
                  else Inr (True, False)))
      else Inr (True, False))"

definition NeedRecommend :: "('rr, 'hpa) Recommendation \<Rightarrow> Time \<Rightarrow> panic + (bool \<times> bool)" where
  "NeedRecommend recommendation now =
     (let timeoutSeconds = timeoutSeconds_of recommendation in
      if CompletionStrategyType (CompletionStrategy (Spec recommendation)) = CompletionStrategyOnce
      then
        if LastSuccessfulTime (Status recommendation) \<noteq> None then Inr (False, False)
        else if Time_After now
                  (Time_Add (CreationTimestamp recommendation) (scast timeoutSeconds * Second))
        then Inr (False, False)
        else NeedRecommend_Periodical recommendation timeoutSeconds now
      else NeedRecommend_Periodical recommendation timeoutSeconds now)"

section \<open>setCondition\<close>

text \<open>
  The loop over \<^verbatim>\<open>status.Conditions\<close> rewrites the first entry whose \<^verbatim>\<open>Type\<close> matches
  and returns; when the loop ends without a match the new condition is appended (its
  \<^verbatim>\<open>ObservedGeneration\<close> is the zero value). \<^verbatim>\<open>metav1.Now()\<close> is the argument \<open>now\<close>.
\<close>

fun setCondition_loop ::
  "Condition list \<Rightarrow> string \<Rightarrow> ConditionStatus \<Rightarrow> string \<Rightarrow> string \<Rightarrow> Time \<Rightarrow> Condition list" where
  "setCondition_loop [] conditionType conditionStatus reason message now =
     [\<lparr>Type = conditionType, CondStatus = conditionStatus, ObservedGeneration = 0,
       LastTransitionTime = now, Reason = reason, Message = message\<rparr>]"
| "setCondition_loop (c # cs) conditionType conditionStatus reason message now =
     (if Type c = conditionType
      then c\<lparr>CondStatus := conditionStatus, Reason := reason, Message := message,
             LastTransitionTime := now\<rparr> # cs
      else c # setCondition_loop cs conditionType conditionStatus reason message now)"

definition setCondition ::
  "('rr, 'hpa) RecommendationStatus \<Rightarrow> string \<Rightarrow> ConditionStatus \<Rightarrow> string \<Rightarrow> string \<Rightarrow> Time
     \<Rightarrow> ('rr, 'hpa) RecommendationStatus" where
  "setCondition status conditionType conditionStatus reason message now =
     status\<lparr>Conditions :=
       setCondition_loop (Conditions status) conditionType conditionStatus reason message now\<rparr>"

section \<open>UpdateStatus\<close>

text \<open>
  Errors are values carrying what the controller looks at: whether
  \<^verbatim>\<open>errors.IsNotFound\<close> holds and the text of \<^verbatim>\<open>err.Error()\<close>. What the controller
  does to its collaborators is recorded as a list of effects, in order: the events sent
  to the recorder, the calls of \<^verbatim>\<open>recommend.NewRecommender\<close> and \<^verbatim>\<open>Offer\<close>, and the
  objects handed to \<^verbatim>\<open>c.Update\<close>.
\<close>

datatype error = Err (IsNotFound: bool) (ErrorText: string)

datatype ('rr, 'hpa) effect =
    Event string string
  | NewRecommenderCall
  | OfferCall
  | Update "('rr, 'hpa) Recommendation"

text \<open>The loop that looks for a ready condition; it stops at the first one.\<close>

fun ready_loop :: "Condition list \<Rightarrow> bool" where
  "ready_loop [] = False"
| "ready_loop (cond # conds) =
     (if Reason cond = ''RecommendationReady'' \<and> CondStatus cond = ConditionTrue
      then True
      else ready_loop conds)"

text \<open>
  \<^verbatim>\<open>equality.Semantic.DeepEqual\<close> on two statuses is equality of the status values:
  payloads, every condition with all its fields, both timestamps. The in-memory object
  is changed before \<^verbatim>\<open>c.Update\<close> is called, so it is returned changed also when the
  write fails.
\<close>

definition UpdateStatus ::
  "('rr, 'hpa) Recommendation \<Rightarrow> ('rr, 'hpa) RecommendationStatus \<Rightarrow> Time \<Rightarrow> error option
     \<Rightarrow> ('rr, 'hpa) Recommendation \<times> ('rr, 'hpa) effect list" where
  "UpdateStatus recommendation newStatus now updateResult =
     (if Status recommendation \<noteq> newStatus then
        let stamped = recommendation\<lparr>Status := newStatus\<lparr>LastUpdateTime := now\<rparr>\<rparr>;
            ready = ready_loop (Conditions newStatus);
            updated =
              (if ready
               then stamped\<lparr>Status := (Status stamped)
                      \<lparr>LastSuccessfulTime := Some (LastUpdateTime (Status stamped))\<rparr>\<rparr>
               else stamped)
        in (case updateResult of
              Some err \<Rightarrow> (updated, [Update updated, Event ''FailedUpdateStatus'' (ErrorText err)])
            | None \<Rightarrow> (updated, [Update updated]))
      else (recommendation, []))"

section \<open>Reconcile\<close>

text \<open>
  One invocation of Reconcile sees its collaborators through their answers: what
  \<^verbatim>\<open>c.Client.Get\<close> returns, what \<^verbatim>\<open>recommend.NewRecommender\<close> returns (an error, or a
  recommender, which is what its \<^verbatim>\<open>Offer\<close> returns: an error or a possibly nil
  proposal), what \<^verbatim>\<open>c.Update\<close> returns, and the three clock readings. The
  \<^verbatim>\<open>klog\<close> calls write log lines only and are left out. A panic of NeedRecommend ends
  the invocation.
\<close>

record ('rr, 'hpa) ProposedRecommendation =
  ProposedResourceRequest :: 'rr
  ProposedEffectiveHPA :: 'hpa

record ('rr, 'hpa) Env =
  Get_result :: "error + ('rr, 'hpa) Recommendation"
  NeedRecommend_Now :: Time
  NewRecommender_result :: "error + (error + ('rr, 'hpa) ProposedRecommendation option)"
  setCondition_Now :: Time
  UpdateStatus_Now :: Time
  Update_result :: "error option"

record ctrl_Result =
  Requeue :: bool
  RequeueAfter :: Duration

definition ctrl_Result_empty :: ctrl_Result where
  "ctrl_Result_empty = \<lparr>Requeue = False, RequeueAfter = 0\<rparr>"

record ('rr, 'hpa) Reconciled =
  ret_Result :: ctrl_Result
  ret_err :: "error option"
  object :: "('rr, 'hpa) Recommendation option"
  trace :: "('rr, 'hpa) effect list"

text \<open>\<^verbatim>\<open>klog.KObj\<close> printed with \<^verbatim>\<open>%s\<close>: namespace/name, or the name alone.\<close>

definition KObj :: "('rr, 'hpa) Recommendation \<Rightarrow> string" where
  "KObj recommendation =
     (if Namespace recommendation \<noteq> []
      then Namespace recommendation @ ''/'' @ Name recommendation
      else Name recommendation)"

definition Reconcile :: "('rr, 'hpa) Env \<Rightarrow> panic + ('rr, 'hpa) Reconciled" where
  "Reconcile env =
     (case Get_result env of
        Inl err \<Rightarrow>
          (if IsNotFound err
           then Inr \<lparr>ret_Result = ctrl_Result_empty, ret_err = Some err, object = None, trace = []\<rparr>
           else Inr \<lparr>ret_Result = ctrl_Result_empty, ret_err = Some err, object = None, trace = []\<rparr>)
      | Inr recommendation \<Rightarrow>
          if DeletionTimestamp recommendation \<noteq> None
          then Inr \<lparr>ret_Result = ctrl_Result_empty, ret_err = None,
                    object = Some recommendation, trace = []\<rparr>
          else
            (case NeedRecommend recommendation (NeedRecommend_Now env) of
               Inl p \<Rightarrow> Inl p
             | Inr (needRecommend, needResync) \<Rightarrow>
                 if \<not> needRecommend then
                   (if needResync
                    then Inr \<lparr>ret_Result = \<lparr>Requeue = False, RequeueAfter = RsyncPeriod\<rparr>,
                              ret_err = None, object = Some recommendation, trace = []\<rparr>
                    else Inr \<lparr>ret_Result = ctrl_Result_empty, ret_err = None,
                              object = Some recommendation, trace = []\<rparr>)
                 else
                   (let newStatus = Status recommendation in
                    case NewRecommender_result env of
                      Inl err \<Rightarrow>
                        (let msg = ''Failed to create recommender, Recommendation ''
                                     @ KObj recommendation @ '' error '' @ ErrorText err;
                             newStatus1 = setCondition newStatus ''Ready'' ConditionFalse
                                            ''FailedCreateRecommender'' msg (setCondition_Now env);
                             (recommendation1, written) =
                                UpdateStatus recommendation newStatus1
                                  (UpdateStatus_Now env) (Update_result env)
                         in Inr \<lparr>ret_Result = ctrl_Result_empty, ret_err = Some err,
                                 object = Some recommendation1,
                                 trace = [NewRecommenderCall,
                                          Event ''FailedCreateRecommender'' (ErrorText err)]
                                         @ written\<rparr>)
                    | Inr recommender \<Rightarrow>
                        (case recommender of
                           Inl err \<Rightarrow>
                             (let msg = ''Failed to offer recommend, Recommendation ''
                                          @ KObj recommendation @ '' error '' @ ErrorText err;
                                  newStatus1 = setCondition newStatus ''Ready'' ConditionFalse
                                                 ''FailedOfferRecommend'' msg (setCondition_Now env);
                                  (recommendation1, written) =
                                     UpdateStatus recommendation newStatus1
                                       (UpdateStatus_Now env) (Update_result env)
                              in Inr \<lparr>ret_Result = \<lparr>Requeue = False,
                                                     RequeueAfter = ErrorFallbackPeriod\<rparr>,
                                      ret_err = Some err,
                                      object = Some recommendation1,
                                      trace = [NewRecommenderCall, OfferCall,
                                               Event ''FailedOfferRecommendation'' (ErrorText err)]
                                              @ written\<rparr>)
                         | Inr proposed \<Rightarrow>
                             (let newStatus1 =
                                    (case proposed of
                                       None \<Rightarrow> newStatus
                                     | Some p \<Rightarrow>
                                         newStatus\<lparr>ResourceRequest := ProposedResourceRequest p,
                                                    EffectiveHPA := ProposedEffectiveHPA p\<rparr>);
                                  newStatus2 = setCondition newStatus1 ''Ready'' ConditionTrue
                                                 ''RecommendationReady'' ''Recommendation is ready''
                                                 (setCondition_Now env);
                                  (recommendation1, written) =
                                     UpdateStatus recommendation newStatus2
                                       (UpdateStatus_Now env) (Update_result env)
                              in Inr \<lparr>ret_Result = ctrl_Result_empty, ret_err = None,
                                      object = Some recommendation1,
                                      trace = [NewRecommenderCall, OfferCall] @ written\<rparr>)))))"

section \<open>Sample objects\<close>

text \<open>Concrete recommendations, with natural numbers standing for the payloads.\<close>

definition example_spec :: "string \<Rightarrow> int64 option \<Rightarrow> int32 option \<Rightarrow> RecommendationSpec" where
  "example_spec ty period timeout =
     \<lparr>CompletionStrategy = \<lparr>CompletionStrategyType = ty, PeriodSeconds = period\<rparr>,
      TimeoutSeconds = timeout\<rparr>"

definition example_status :: "Condition list \<Rightarrow> Time option \<Rightarrow> (nat, nat) RecommendationStatus" where
  "example_status conds lst =
     \<lparr>ResourceRequest = 0, EffectiveHPA = 0, Conditions = conds,
      LastUpdateTime = 0, LastSuccessfulTime = lst\<rparr>"

definition example_recommendation ::
  "RecommendationSpec \<Rightarrow> (nat, nat) RecommendationStatus \<Rightarrow> (nat, nat) Recommendation" where
  "example_recommendation spec status =
     \<lparr>Namespace = ''default'', Name = ''rec'', CreationTimestamp = 0,
      DeletionTimestamp = None, Spec = spec, Status = status\<rparr>"

definition example_env ::
  "(nat, nat) Recommendation \<Rightarrow> Time
     \<Rightarrow> error + (error + (nat, nat) ProposedRecommendation option) \<Rightarrow> (nat, nat) Env" where
  "example_env r t recommender =
     \<lparr>Get_result = Inr r, NeedRecommend_Now = t, NewRecommender_result = recommender,
      setCondition_Now = t, UpdateStatus_Now = t, Update_result = None\<rparr>"

definition example_condition :: "string \<Rightarrow> ConditionStatus \<Rightarrow> string \<Rightarrow> string \<Rightarrow> Time \<Rightarrow> Condition" where
  "example_condition ty st rs msg t =
     \<lparr>Type = ty, CondStatus = st, ObservedGeneration = 0, LastTransitionTime = t,
      Reason = rs, Message = msg\<rparr>"

definition example_proposal :: "(nat, nat) ProposedRecommendation" where
  "example_proposal = \<lparr>ProposedResourceRequest = 1, ProposedEffectiveHPA = 2\<rparr>"

definition example_ready_status :: "Time \<Rightarrow> (nat, nat) RecommendationStatus" where
  "example_ready_status t =
     \<lparr>ResourceRequest = 1, EffectiveHPA = 2,
      Conditions = [example_condition ''Ready'' ConditionTrue ''RecommendationReady''
                      ''Recommendation is ready'' t],
      LastUpdateTime = t, LastSuccessfulTime = Some t\<rparr>"

section \<open>Arithmetic of the deadlines\<close>

text \<open>
  The timeout is an \<^verbatim>\<open>int32\<close> number of seconds: converted to a duration and
  multiplied by \<^verbatim>\<open>time.Second\<close> it never leaves the \<^verbatim>\<open>int64\<close> range. The period is
  an \<^verbatim>\<open>int64\<close> number of seconds: its product with \<^verbatim>\<open>time.Second\<close> is the period in
  nanoseconds only while that fits 64 bits.
\<close>

lemma sint_timeout_duration:
  "sint ((scast (s :: int32) :: Duration) * Second) = sint s * 1000000000"
proof -
  have up: "sint (scast s :: 64 word) = sint s"
    by (rule sint_up_scast) (simp add: is_up)
  have lo: "- (2 ^ 31) \<le> sint s" using sint_ge [of s] by simp
  have hi: "sint s < 2 ^ 31" using sint_lt [of s] by simp
  have "sint ((scast s :: 64 word) * Second) = signed_take_bit 63 (sint s * 1000000000)"
    by (simp add: sint_word_ariths up Second_def)
  also have "\<dots> = sint s * 1000000000"
    using lo hi by (intro signed_take_bit_int_eq_self) simp_all
  finally show ?thesis .
qed

lemma sint_period_duration:
  assumes "- 9223372036 \<le> sint (p :: int64)" "sint p \<le> 9223372036"
  shows "sint (p * Second) = sint p * 1000000000"
proof -
  have "sint (p * Second) = signed_take_bit 63 (sint p * 1000000000)"
    by (simp add: sint_word_ariths Second_def)
  also have "\<dots> = sint p * 1000000000"
    using assms by (intro signed_take_bit_int_eq_self) simp_all
  finally show ?thesis .
qed

lemma timeout_duration: "sint ((scast (timeoutSeconds_of r) :: Duration) * Second) =
   (case TimeoutSeconds (Spec r) of None \<Rightarrow> 600 | Some s \<Rightarrow> sint s) * 1000000000"
  by (simp add: sint_timeout_duration timeoutSeconds_of_def DefaultTimeoutSeconds_def split: option.splits)

lemma strategies_distinct: "CompletionStrategyOnce \<noteq> CompletionStrategyPeriodical"
  by (simp add: CompletionStrategyOnce_def CompletionStrategyPeriodical_def)

section \<open>Facts about setCondition and UpdateStatus\<close>

lemma setCondition_loop_absent:
  "ty \<notin> Type ` set cs \<Longrightarrow>
   setCondition_loop cs ty st rs msg now =
     cs @ [\<lparr>Type = ty, CondStatus = st, ObservedGeneration = 0,
             LastTransitionTime = now, Reason = rs, Message = msg\<rparr>]"
  by (induction cs) auto

lemma setCondition_loop_first:
  "i < length cs \<Longrightarrow> Type (cs ! i) = ty \<Longrightarrow> (\<forall>j<i. Type (cs ! j) \<noteq> ty) \<Longrightarrow>
   setCondition_loop cs ty st rs msg now =
     cs[i := (cs ! i)\<lparr>CondStatus := st, Reason := rs, Message := msg, LastTransitionTime := now\<rparr>]"
proof (induction cs arbitrary: i)
  case Nil
  then show ?case by simp
next
  case (Cons c cs)
  show ?case
  proof (cases i)
    case 0
    with Cons.prems show ?thesis by simp
  next
    case (Suc k)
    with Cons.prems have "Type c \<noteq> ty" by auto
    moreover have "k < length cs" "Type (cs ! k) = ty" "\<forall>j<k. Type (cs ! j) \<noteq> ty"
      using Cons.prems Suc by auto
    ultimately show ?thesis using Cons.IH [of k] Suc by simp
  qed
qed

lemma setCondition_loop_types:
  "map Type (setCondition_loop cs ty st rs msg now) =
     (if ty \<in> Type ` set cs then map Type cs else map Type cs @ [ty])"
  by (induction cs) auto

lemma setCondition_loop_distinct:
  "distinct (map Type cs) \<Longrightarrow> distinct (map Type (setCondition_loop cs ty st rs msg now))"
  by (auto simp add: setCondition_loop_types)

lemma filter_absent: "ty \<notin> Type ` set cs \<Longrightarrow> filter (\<lambda>c. Type c = ty) cs = []"
  by (induction cs) auto

lemma setCondition_loop_single:
  "distinct (map Type cs) \<Longrightarrow>
   \<exists>c. filter (\<lambda>c. Type c = ty) (setCondition_loop cs ty st rs msg now) = [c]
      \<and> CondStatus c = st \<and> Reason c = rs \<and> Message c = msg \<and> LastTransitionTime c = now"
proof (induction cs)
  case Nil
  then show ?case by simp
next
  case (Cons c cs)
  show ?case
  proof (cases "Type c = ty")
    case True
    with Cons.prems have "ty \<notin> Type ` set cs" by auto
    then have "filter (\<lambda>c. Type c = ty) cs = []" by (rule filter_absent)
    with True show ?thesis by simp
  next
    case False
    with Cons show ?thesis by simp
  qed
qed

lemma setCondition_loop_contains:
  "\<exists>c\<in>set (setCondition_loop cs ty st rs msg now).
     Type c = ty \<and> CondStatus c = st \<and> Reason c = rs \<and> Message c = msg \<and> LastTransitionTime c = now"
  by (induction cs) auto

lemma ready_loop_iff:
  "ready_loop cs \<longleftrightarrow> (\<exists>c\<in>set cs. Reason c = ''RecommendationReady'' \<and> CondStatus c = ConditionTrue)"
  by (induction cs) auto

lemma UpdateStatus_Conditions:
  "Conditions (Status (fst (UpdateStatus r ns now u))) = Conditions ns"
  by (cases "Status r = ns") (simp_all add: UpdateStatus_def Let_def split: option.splits)

lemma UpdateStatus_ResourceRequest:
  "ResourceRequest (Status (fst (UpdateStatus r ns now u))) = ResourceRequest ns"
  by (cases "Status r = ns") (simp_all add: UpdateStatus_def Let_def split: option.splits)

lemma UpdateStatus_EffectiveHPA:
  "EffectiveHPA (Status (fst (UpdateStatus r ns now u))) = EffectiveHPA ns"
  by (cases "Status r = ns") (simp_all add: UpdateStatus_def Let_def split: option.splits)

lemma UpdateStatus_written:
  "Update w \<in> set (snd (UpdateStatus r ns now u)) \<Longrightarrow> w = fst (UpdateStatus r ns now u)"
  by (cases "Status r = ns") (auto simp add: UpdateStatus_def Let_def split: option.splits)

lemma UpdateStatus_unchanged:
  "Status r = ns \<Longrightarrow> UpdateStatus r ns now u = (r, [])"
  by (simp add: UpdateStatus_def)

lemma UpdateStatus_changed_write:
  "Status r \<noteq> ns \<Longrightarrow> Update (fst (UpdateStatus r ns now u)) \<in> set (snd (UpdateStatus r ns now u))"
  by (auto simp add: UpdateStatus_def Let_def split: option.splits)

lemma UpdateStatus_LastSuccessfulTime:
  "LastSuccessfulTime (Status (fst (UpdateStatus r ns now u))) =
     (if Status r \<noteq> ns \<and> ready_loop (Conditions ns) then Some now
      else if Status r \<noteq> ns then LastSuccessfulTime ns
      else LastSuccessfulTime (Status r))"
  by (simp add: UpdateStatus_def Let_def split: option.splits)

lemma UpdateStatus_LastUpdateTime:
  "LastUpdateTime (Status (fst (UpdateStatus r ns now u))) =
     (if Status r \<noteq> ns then now else LastUpdateTime (Status r))"
  by (simp add: UpdateStatus_def Let_def split: option.splits)

lemma setCondition_frame:
  "ResourceRequest (setCondition s ty st rs msg now) = ResourceRequest s"
  "EffectiveHPA (setCondition s ty st rs msg now) = EffectiveHPA s"
  "LastUpdateTime (setCondition s ty st rs msg now) = LastUpdateTime s"
  "LastSuccessfulTime (setCondition s ty st rs msg now) = LastSuccessfulTime s"
  by (simp_all add: setCondition_def)

lemma setCondition_contains:
  "\<exists>c\<in>set (Conditions (setCondition s ty st rs msg now)).
     Type c = ty \<and> CondStatus c = st \<and> Reason c = rs \<and> Message c = msg \<and> LastTransitionTime c = now"
  using setCondition_loop_contains [of "Conditions s" ty st rs msg now]
  by (simp add: setCondition_def)

lemma setCondition_ready:
  "ready_loop (Conditions (setCondition s ty ConditionTrue ''RecommendationReady'' msg now))"
  using setCondition_contains [of s ty ConditionTrue "''RecommendationReady''" msg now]
  unfolding ready_loop_iff by blast

section \<open>The paths of Reconcile\<close>

lemma Reconcile_create_failed:
  assumes "Get_result env = Inr r" "DeletionTimestamp r = None"
    "NeedRecommend r (NeedRecommend_Now env) = Inr (True, b)"
    "NewRecommender_result env = Inl e"
  shows "Reconcile env =
    (let upd = UpdateStatus r
                 (setCondition (Status r) ''Ready'' ConditionFalse ''FailedCreateRecommender''
                    (''Failed to create recommender, Recommendation '' @ KObj r @ '' error '' @ ErrorText e)
                    (setCondition_Now env))
                 (UpdateStatus_Now env) (Update_result env)
     in Inr \<lparr>ret_Result = ctrl_Result_empty, ret_err = Some e, object = Some (fst upd),
             trace = [NewRecommenderCall, Event ''FailedCreateRecommender'' (ErrorText e)] @ snd upd\<rparr>)"
  using assms by (simp add: Reconcile_def Let_def case_prod_beta)

lemma Reconcile_offer_failed:
  assumes "Get_result env = Inr r" "DeletionTimestamp r = None"
    "NeedRecommend r (NeedRecommend_Now env) = Inr (True, b)"
    "NewRecommender_result env = Inr (Inl e)"
  shows "Reconcile env =
    (let upd = UpdateStatus r
                 (setCondition (Status r) ''Ready'' ConditionFalse ''FailedOfferRecommend''
                    (''Failed to offer recommend, Recommendation '' @ KObj r @ '' error '' @ ErrorText e)
                    (setCondition_Now env))
                 (UpdateStatus_Now env) (Update_result env)
     in Inr \<lparr>ret_Result = \<lparr>Requeue = False, RequeueAfter = ErrorFallbackPeriod\<rparr>,
             ret_err = Some e, object = Some (fst upd),
             trace = [NewRecommenderCall, OfferCall, Event ''FailedOfferRecommendation'' (ErrorText e)] @ snd upd\<rparr>)"
  using assms by (simp add: Reconcile_def Let_def case_prod_beta)

lemma Reconcile_offered:
  assumes "Get_result env = Inr r" "DeletionTimestamp r = None"
    "NeedRecommend r (NeedRecommend_Now env) = Inr (True, b)"
    "NewRecommender_result env = Inr (Inr proposed)"
  shows "Reconcile env =
    (let upd = UpdateStatus r
                 (setCondition
                    (case proposed of None \<Rightarrow> Status r
                     | Some p \<Rightarrow> (Status r)\<lparr>ResourceRequest := ProposedResourceRequest p,
                                              EffectiveHPA := ProposedEffectiveHPA p\<rparr>)
                    ''Ready'' ConditionTrue ''RecommendationReady'' ''Recommendation is ready''
                    (setCondition_Now env))
                 (UpdateStatus_Now env) (Update_result env)
     in Inr \<lparr>ret_Result = ctrl_Result_empty, ret_err = None, object = Some (fst upd),
             trace = [NewRecommenderCall, OfferCall] @ snd upd\<rparr>)"
  using assms by (simp add: Reconcile_def Let_def case_prod_beta)

lemma Reconcile_not_needed:
  assumes "Get_result env = Inr r" "DeletionTimestamp r = None"
    "NeedRecommend r (NeedRecommend_Now env) = Inr (False, needResync)"
  shows "Reconcile env =
     Inr \<lparr>ret_Result = \<lparr>Requeue = False, RequeueAfter = (if needResync then RsyncPeriod else 0)\<rparr>,
          ret_err = None, object = Some r, trace = []\<rparr>"
  using assms by (simp add: Reconcile_def ctrl_Result_empty_def)

lemma RsyncPeriod_seconds: "sint RsyncPeriod = 60 * 1000000000"
  by (simp add: RsyncPeriod_def Second_def)

lemma ErrorFallbackPeriod_seconds: "sint ErrorFallbackPeriod = 5 * 1000000000"
  by (simp add: ErrorFallbackPeriod_def Second_def)


section \<open>The scheduling decision\<close>

text \<open>
  Claim C1. For a recommendation with the Once strategy, NeedRecommend answers
  \<open>(False, False)\<close> (skip) at every time once \<^verbatim>\<open>Status.LastSuccessfulTime\<close> is set.
  While it is unset, the answer is skip as soon as the current time is after the creation
  timestamp plus the timeout (\<^verbatim>\<open>Spec.TimeoutSeconds\<close>, or 600 seconds when absent), and
  stays skip at every later time; up to and including that deadline the answer is
  \<open>(True, False)\<close> (run). Times are in nanoseconds.
\<close>

theorem NeedRecommend_Once:
  assumes "CompletionStrategyType (CompletionStrategy (Spec r)) = CompletionStrategyOnce"
  shows "(LastSuccessfulTime (Status r) \<noteq> None \<longrightarrow> NeedRecommend r now = Inr (False, False))
    \<and> (LastSuccessfulTime (Status r) = None
        \<and> now > CreationTimestamp r
                  + (case TimeoutSeconds (Spec r) of None \<Rightarrow> 600 | Some s \<Rightarrow> sint s) * 1000000000
        \<longrightarrow> (\<forall>later\<ge>now. NeedRecommend r later = Inr (False, False)))
    \<and> (LastSuccessfulTime (Status r) = None
        \<and> now \<le> CreationTimestamp r
                  + (case TimeoutSeconds (Spec r) of None \<Rightarrow> 600 | Some s \<Rightarrow> sint s) * 1000000000
        \<longrightarrow> NeedRecommend r now = Inr (True, False))"
  using assms strategies_distinct
  by (auto simp add: NeedRecommend_def NeedRecommend_Periodical_def Time_After_def Time_Add_def
        timeout_duration)

theorem NeedRecommend_Once_witness:
  "CompletionStrategyType (CompletionStrategy (Spec
      (example_recommendation (example_spec ''Once'' None None) (example_status [] (Some 7)))))
     = CompletionStrategyOnce
   \<and> NeedRecommend
        (example_recommendation (example_spec ''Once'' None None) (example_status [] (Some 7))) 5
       = Inr (False, False)
   \<and> NeedRecommend
        (example_recommendation (example_spec ''Once'' None (Some 10)) (example_status [] None))
        10000000001
       = Inr (False, False)
   \<and> NeedRecommend
        (example_recommendation (example_spec ''Once'' None (Some 10)) (example_status [] None))
        10000000000
       = Inr (True, False)"
  using
    NeedRecommend_Once [of "example_recommendation (example_spec ''Once'' None None)
                              (example_status [] (Some 7))" 5]
    NeedRecommend_Once [of "example_recommendation (example_spec ''Once'' None (Some 10))
                              (example_status [] None)" 10000000001]
    NeedRecommend_Once [of "example_recommendation (example_spec ''Once'' None (Some 10))
                              (example_status [] None)" 10000000000]
  by (simp add: example_recommendation_def example_spec_def example_status_def
        CompletionStrategyOnce_def)

text \<open>
  Claim C2, as the spec states it, at a period of 9223372037 seconds: the product with
  \<^verbatim>\<open>time.Second\<close> wraps around, the computed deadline lies in the past, and at the time
  of the last success itself NeedRecommend answers \<open>(False, True)\<close> (resync), not run.
\<close>

theorem NeedRecommend_Periodical_counterexample:
  "CompletionStrategyType (CompletionStrategy (Spec
      (example_recommendation (example_spec ''Periodical'' (Some 9223372037) None)
         (example_status [] (Some 0)))))
     = CompletionStrategyPeriodical
   \<and> sint (9223372037 :: int64) = 9223372037
   \<and> (0 :: int) \<le> 0 + 9223372037 * 1000000000 + 600 * 1000000000
   \<and> NeedRecommend
        (example_recommendation (example_spec ''Periodical'' (Some 9223372037) None)
           (example_status [] (Some 0))) 0
       = Inr (False, True)"
  by (simp add: example_recommendation_def example_spec_def example_status_def
        CompletionStrategyPeriodical_def CompletionStrategyOnce_def
        NeedRecommend_def NeedRecommend_Periodical_def Time_After_def Time_Add_def
        timeoutSeconds_of_def DefaultTimeoutSeconds_def Second_def)

text \<open>
  Claim C2, amended. For a recommendation with the Periodical strategy, NeedRecommend
  answers run while \<^verbatim>\<open>Status.LastSuccessfulTime\<close> is unset. When it is \<open>T\<close>, the period
  is \<open>P\<close> seconds with \<open>P\<close> between -9223372036 and 9223372036 (so that the period in
  nanoseconds is a \<^verbatim>\<open>time.Duration\<close>) and the timeout is \<open>S\<close> seconds, the answer is run
  at every time up to and including \<open>T + P + S\<close> and resync after it. On resync Reconcile
  returns the result with \<^verbatim>\<open>RequeueAfter = RsyncPeriod\<close>, 60 seconds, and a nil error,
  with no call of the recommender, no event, no write, and the object as it was fetched.
\<close>

theorem NeedRecommend_Periodical_deadline:
  assumes "CompletionStrategyType (CompletionStrategy (Spec r)) = CompletionStrategyPeriodical"
  shows "(LastSuccessfulTime (Status r) = None \<longrightarrow> NeedRecommend r now = Inr (True, False))
    \<and> (LastSuccessfulTime (Status r) = Some T
        \<and> PeriodSeconds (CompletionStrategy (Spec r)) = Some P
        \<and> - 9223372036 \<le> sint P \<and> sint P \<le> 9223372036
        \<longrightarrow> NeedRecommend r now =
             (if now \<le> T + sint P * 1000000000
                       + (case TimeoutSeconds (Spec r) of None \<Rightarrow> 600 | Some s \<Rightarrow> sint s) * 1000000000
              then Inr (True, False) else Inr (False, True)))
    \<and> (Get_result env = Inr r \<and> DeletionTimestamp r = None
        \<and> NeedRecommend r (NeedRecommend_Now env) = Inr (False, True)
        \<longrightarrow> Reconcile env =
              Inr \<lparr>ret_Result = \<lparr>Requeue = False, RequeueAfter = RsyncPeriod\<rparr>,
                   ret_err = None, object = Some r, trace = []\<rparr>)
    \<and> sint RsyncPeriod = 60 * 1000000000"
proof -
  have once: "CompletionStrategyType (CompletionStrategy (Spec r)) \<noteq> CompletionStrategyOnce"
    using assms strategies_distinct by simp
  have unset: "LastSuccessfulTime (Status r) = None \<longrightarrow> NeedRecommend r now = Inr (True, False)"
    using assms once by (simp add: NeedRecommend_def NeedRecommend_Periodical_def)
  have deadline: "LastSuccessfulTime (Status r) = Some T
        \<and> PeriodSeconds (CompletionStrategy (Spec r)) = Some P
        \<and> - 9223372036 \<le> sint P \<and> sint P \<le> 9223372036
        \<longrightarrow> NeedRecommend r now =
             (if now \<le> T + sint P * 1000000000
                       + (case TimeoutSeconds (Spec r) of None \<Rightarrow> 600 | Some s \<Rightarrow> sint s) * 1000000000
              then Inr (True, False) else Inr (False, True))"
    using assms once
    by (auto simp add: NeedRecommend_def NeedRecommend_Periodical_def Time_After_def Time_Add_def
          timeout_duration sint_period_duration)
  have resync: "Get_result env = Inr r \<and> DeletionTimestamp r = None
        \<and> NeedRecommend r (NeedRecommend_Now env) = Inr (False, True)
        \<longrightarrow> Reconcile env =
              Inr \<lparr>ret_Result = \<lparr>Requeue = False, RequeueAfter = RsyncPeriod\<rparr>,
                   ret_err = None, object = Some r, trace = []\<rparr>"
    by (simp add: Reconcile_not_needed)
  from unset deadline resync RsyncPeriod_seconds show ?thesis by blast
qed

theorem NeedRecommend_Periodical_deadline_witness:
  "CompletionStrategyType (CompletionStrategy (Spec
      (example_recommendation (example_spec ''Periodical'' (Some 300) None)
         (example_status [] (Some 0)))))
     = CompletionStrategyPeriodical
   \<and> NeedRecommend
        (example_recommendation (example_spec ''Periodical'' (Some 300) None)
           (example_status [] None)) 5
       = Inr (True, False)
   \<and> NeedRecommend
        (example_recommendation (example_spec ''Periodical'' (Some 300) None)
           (example_status [] (Some 0))) 900000000000
       = Inr (True, False)
   \<and> NeedRecommend
        (example_recommendation (example_spec ''Periodical'' (Some 300) None)
           (example_status [] (Some 0))) 900000000001
       = Inr (False, True)
   \<and> Reconcile
        (example_env
           (example_recommendation (example_spec ''Periodical'' (Some 300) None)
              (example_status [] (Some 0)))
           900000000001 (Inl (Err False ''unused'')))
       = Inr \<lparr>ret_Result = \<lparr>Requeue = False, RequeueAfter = RsyncPeriod\<rparr>, ret_err = None,
              object = Some (example_recommendation (example_spec ''Periodical'' (Some 300) None)
                               (example_status [] (Some 0))),
              trace = []\<rparr>"
  using
    NeedRecommend_Periodical_deadline
      [of "example_recommendation (example_spec ''Periodical'' (Some 300) None)
             (example_status [] None)" 5 0 300
          "example_env
             (example_recommendation (example_spec ''Periodical'' (Some 300) None)
                (example_status [] (Some 0)))
             900000000001 (Inl (Err False ''unused''))"]
    NeedRecommend_Periodical_deadline
      [of "example_recommendation (example_spec ''Periodical'' (Some 300) None)
             (example_status [] (Some 0))" 900000000000 0 300
          "example_env
             (example_recommendation (example_spec ''Periodical'' (Some 300) None)
                (example_status [] (Some 0)))
             900000000001 (Inl (Err False ''unused''))"]
    NeedRecommend_Periodical_deadline
      [of "example_recommendation (example_spec ''Periodical'' (Some 300) None)
             (example_status [] (Some 0))" 900000000001 0 300
          "example_env
             (example_recommendation (example_spec ''Periodical'' (Some 300) None)
                (example_status [] (Some 0)))
             900000000001 (Inl (Err False ''unused''))"]
  by (simp add: example_recommendation_def example_spec_def example_status_def
        example_env_def CompletionStrategyPeriodical_def)

text \<open>
  Claim C8. For a Periodical recommendation whose \<^verbatim>\<open>Status.LastSuccessfulTime\<close> is set,
  NeedRecommend dereferences \<^verbatim>\<open>PeriodSeconds\<close> without a nil check: with
  \<^verbatim>\<open>PeriodSeconds\<close> nil the call panics, and the call returns a decision exactly when
  \<^verbatim>\<open>PeriodSeconds\<close> is present.
\<close>

theorem NeedRecommend_nil_PeriodSeconds:
  assumes "CompletionStrategyType (CompletionStrategy (Spec r)) = CompletionStrategyPeriodical"
    and "LastSuccessfulTime (Status r) \<noteq> None"
  shows "(PeriodSeconds (CompletionStrategy (Spec r)) = None
            \<longrightarrow> NeedRecommend r now = Inl NilPointerDereference)
       \<and> ((\<exists>d. NeedRecommend r now = Inr d)
            \<longleftrightarrow> PeriodSeconds (CompletionStrategy (Spec r)) \<noteq> None)"
  using assms strategies_distinct
  by (auto simp add: NeedRecommend_def NeedRecommend_Periodical_def split: option.splits)

theorem NeedRecommend_nil_PeriodSeconds_witness:
  "CompletionStrategyType (CompletionStrategy (Spec
      (example_recommendation (example_spec ''Periodical'' None None)
         (example_status [] (Some 0)))))
     = CompletionStrategyPeriodical
   \<and> LastSuccessfulTime (Status
        (example_recommendation (example_spec ''Periodical'' None None)
           (example_status [] (Some 0)))) \<noteq> None
   \<and> NeedRecommend
        (example_recommendation (example_spec ''Periodical'' None None)
           (example_status [] (Some 0))) 5
       = Inl NilPointerDereference
   \<and> (\<exists>d. NeedRecommend
              (example_recommendation (example_spec ''Periodical'' (Some 300) None)
                 (example_status [] (Some 0))) 5
            = Inr d)"
  using
    NeedRecommend_nil_PeriodSeconds
      [of "example_recommendation (example_spec ''Periodical'' None None)
             (example_status [] (Some 0))" 5]
    NeedRecommend_nil_PeriodSeconds
      [of "example_recommendation (example_spec ''Periodical'' (Some 300) None)
             (example_status [] (Some 0))" 5]
  by (simp add: example_recommendation_def example_spec_def example_status_def
        CompletionStrategyPeriodical_def)

text \<open>
  Claim C9. When the completion strategy type is neither Once nor Periodical,
  NeedRecommend returns \<open>(True, False)\<close>, whatever the status and the time.
\<close>

theorem NeedRecommend_other_strategy:
  assumes "CompletionStrategyType (CompletionStrategy (Spec r)) \<noteq> CompletionStrategyOnce"
    and "CompletionStrategyType (CompletionStrategy (Spec r)) \<noteq> CompletionStrategyPeriodical"
  shows "NeedRecommend r now = Inr (True, False)"
  using assms by (simp add: NeedRecommend_def NeedRecommend_Periodical_def)

theorem NeedRecommend_other_strategy_witness:
  "CompletionStrategyType (CompletionStrategy (Spec
      (example_recommendation (example_spec '''' None None) (example_status [] (Some 3)))))
     \<noteq> CompletionStrategyOnce
   \<and> CompletionStrategyType (CompletionStrategy (Spec
      (example_recommendation (example_spec '''' None None) (example_status [] (Some 3)))))
     \<noteq> CompletionStrategyPeriodical
   \<and> NeedRecommend
        (example_recommendation (example_spec '''' None None) (example_status [] (Some 3)))
        99000000000000
       = Inr (True, False)"
  using
    NeedRecommend_other_strategy
      [of "example_recommendation (example_spec '''' None None) (example_status [] (Some 3))"
          99000000000000]
  by (simp add: example_recommendation_def example_spec_def example_status_def
        CompletionStrategyOnce_def CompletionStrategyPeriodical_def)

section \<open>The condition set\<close>

text \<open>
  Claim C6. setCondition rewrites \<^verbatim>\<open>Status\<close>, \<^verbatim>\<open>Reason\<close>, \<^verbatim>\<open>Message\<close> and
  \<^verbatim>\<open>LastTransitionTime\<close> of the first condition with the given type, at its position,
  and leaves the rest of the list as it is; with no condition of that type it appends a
  new one. On a list with one condition per type, two calls for the same type leave one
  condition of that type, with the values of the second call.
\<close>

theorem setCondition_upsert:
  "(i < length (Conditions status) \<and> Type (Conditions status ! i) = ty
      \<and> (\<forall>j<i. Type (Conditions status ! j) \<noteq> ty)
    \<longrightarrow> Conditions (setCondition status ty st rs msg now) =
          (Conditions status)
            [i := (Conditions status ! i)
                    \<lparr>CondStatus := st, Reason := rs, Message := msg, LastTransitionTime := now\<rparr>])
   \<and> (ty \<notin> Type ` set (Conditions status)
    \<longrightarrow> Conditions (setCondition status ty st rs msg now) =
          Conditions status
            @ [\<lparr>Type = ty, CondStatus = st, ObservedGeneration = 0,
                LastTransitionTime = now, Reason = rs, Message = msg\<rparr>])
   \<and> (distinct (map Type (Conditions status))
    \<longrightarrow> (\<exists>c. filter (\<lambda>c. Type c = ty)
               (Conditions (setCondition (setCondition status ty st1 rs1 msg1 now1)
                              ty st rs msg now)) = [c]
            \<and> CondStatus c = st \<and> Reason c = rs \<and> Message c = msg
            \<and> LastTransitionTime c = now))"
proof (intro conjI impI)
  assume "i < length (Conditions status) \<and> Type (Conditions status ! i) = ty
      \<and> (\<forall>j<i. Type (Conditions status ! j) \<noteq> ty)"
  then show "Conditions (setCondition status ty st rs msg now) =
          (Conditions status)
            [i := (Conditions status ! i)
                    \<lparr>CondStatus := st, Reason := rs, Message := msg, LastTransitionTime := now\<rparr>]"
    by (simp add: setCondition_def setCondition_loop_first)
next
  assume "ty \<notin> Type ` set (Conditions status)"
  then show "Conditions (setCondition status ty st rs msg now) =
          Conditions status
            @ [\<lparr>Type = ty, CondStatus = st, ObservedGeneration = 0,
                LastTransitionTime = now, Reason = rs, Message = msg\<rparr>]"
    by (simp add: setCondition_def setCondition_loop_absent)
next
  assume "distinct (map Type (Conditions status))"
  then have "distinct (map Type (setCondition_loop (Conditions status) ty st1 rs1 msg1 now1))"
    by (rule setCondition_loop_distinct)
  then have "\<exists>c. filter (\<lambda>c. Type c = ty)
               (setCondition_loop (setCondition_loop (Conditions status) ty st1 rs1 msg1 now1)
                  ty st rs msg now) = [c]
            \<and> CondStatus c = st \<and> Reason c = rs \<and> Message c = msg
            \<and> LastTransitionTime c = now"
    by (rule setCondition_loop_single)
  then show "\<exists>c. filter (\<lambda>c. Type c = ty)
               (Conditions (setCondition (setCondition status ty st1 rs1 msg1 now1)
                              ty st rs msg now)) = [c]
            \<and> CondStatus c = st \<and> Reason c = rs \<and> Message c = msg
            \<and> LastTransitionTime c = now"
    by (simp add: setCondition_def)
qed

theorem setCondition_upsert_witness:
  "Conditions
     (setCondition
        (example_status
           [example_condition ''Synced'' ConditionTrue ''Seen'' ''ok'' 1,
            example_condition ''Ready'' ConditionFalse ''FailedOfferRecommend'' ''no'' 2] None)
        ''Ready'' ConditionTrue ''RecommendationReady'' ''Recommendation is ready'' 9)
     = [example_condition ''Synced'' ConditionTrue ''Seen'' ''ok'' 1,
        example_condition ''Ready'' ConditionTrue ''RecommendationReady''
          ''Recommendation is ready'' 9]
   \<and> Conditions
       (setCondition
          (example_status [example_condition ''Synced'' ConditionTrue ''Seen'' ''ok'' 1] None)
          ''Ready'' ConditionTrue ''RecommendationReady'' ''Recommendation is ready'' 9)
     = [example_condition ''Synced'' ConditionTrue ''Seen'' ''ok'' 1,
        example_condition ''Ready'' ConditionTrue ''RecommendationReady''
          ''Recommendation is ready'' 9]
   \<and> (\<exists>c. filter (\<lambda>c. Type c = ''Ready'')
            (Conditions
               (setCondition
                  (setCondition
                     (example_status [example_condition ''Synced'' ConditionTrue ''Seen'' ''ok'' 1]
                        None)
                     ''Ready'' ConditionFalse ''FailedOfferRecommend'' ''no'' 2)
                  ''Ready'' ConditionTrue ''RecommendationReady'' ''Recommendation is ready'' 9))
            = [c]
          \<and> CondStatus c = ConditionTrue \<and> Reason c = ''RecommendationReady''
          \<and> Message c = ''Recommendation is ready'' \<and> LastTransitionTime c = 9)"
  using
    setCondition_upsert
      [of 1 "example_status
           [example_condition ''Synced'' ConditionTrue ''Seen'' ''ok'' 1,
            example_condition ''Ready'' ConditionFalse ''FailedOfferRecommend'' ''no'' 2] None"
          "''Ready''" ConditionTrue "''RecommendationReady''" "''Recommendation is ready''" 9]
    setCondition_upsert
      [of 0 "example_status [example_condition ''Synced'' ConditionTrue ''Seen'' ''ok'' 1] None"
          "''Ready''" ConditionTrue "''RecommendationReady''" "''Recommendation is ready''" 9
          ConditionFalse "''FailedOfferRecommend''" "''no''" 2]
  by (simp add: example_status_def example_condition_def)

section \<open>The status update\<close>

text \<open>
  Claim C3 at a concrete pair of runs. A Periodical recommendation (period 300 s) with an
  empty status is reconciled at second 10 with a proposal: the status is written, with
  the Ready condition, \<^verbatim>\<open>LastUpdateTime\<close> and \<^verbatim>\<open>LastSuccessfulTime\<close> at second 10. The
  stored object is reconciled again at second 70 with the same proposal: setCondition
  stamps the Ready condition with the new clock reading, the status differs from the
  stored one, and it is written again, with both timestamps moved to second 70.
\<close>

theorem Reconcile_second_run_writes:
  "Reconcile
     (example_env
        (example_recommendation (example_spec ''Periodical'' (Some 300) None)
           (example_status [] None))
        10000000000 (Inr (Inr (Some example_proposal))))
     = Inr \<lparr>ret_Result = \<lparr>Requeue = False, RequeueAfter = 0\<rparr>, ret_err = None,
            object = Some (example_recommendation (example_spec ''Periodical'' (Some 300) None)
                             (example_ready_status 10000000000)),
            trace = [NewRecommenderCall, OfferCall,
                     Update (example_recommendation (example_spec ''Periodical'' (Some 300) None)
                               (example_ready_status 10000000000))]\<rparr>
   \<and> Reconcile
       (example_env
          (example_recommendation (example_spec ''Periodical'' (Some 300) None)
             (example_ready_status 10000000000))
          70000000000 (Inr (Inr (Some example_proposal))))
     = Inr \<lparr>ret_Result = \<lparr>Requeue = False, RequeueAfter = 0\<rparr>, ret_err = None,
            object = Some (example_recommendation (example_spec ''Periodical'' (Some 300) None)
                             (example_ready_status 70000000000)),
            trace = [NewRecommenderCall, OfferCall,
                     Update (example_recommendation (example_spec ''Periodical'' (Some 300) None)
                               (example_ready_status 70000000000))]\<rparr>"
  by (simp add: Reconcile_def NeedRecommend_def NeedRecommend_Periodical_def
        timeoutSeconds_of_def DefaultTimeoutSeconds_def Time_After_def Time_Add_def Second_def
        CompletionStrategyOnce_def CompletionStrategyPeriodical_def
        UpdateStatus_def setCondition_def ctrl_Result_empty_def Let_def
        example_env_def example_recommendation_def example_spec_def example_status_def
        example_ready_status_def example_condition_def example_proposal_def)

section \<open>The result of Reconcile when the recommender fails\<close>

text \<open>
  Claim C5 at a concrete input: when \<^verbatim>\<open>NewRecommender\<close> fails, Reconcile returns the
  empty result (no \<^verbatim>\<open>RequeueAfter\<close>) with the error; when \<^verbatim>\<open>Offer\<close> fails it returns
  \<^verbatim>\<open>RequeueAfter = ErrorFallbackPeriod\<close>, 5 seconds, with the error.
\<close>

theorem Reconcile_NewRecommender_error_result:
  "map_sum id ret_Result
     (Reconcile
        (example_env
           (example_recommendation (example_spec ''Once'' None None) (example_status [] None))
           10000000000 (Inl (Err False ''no scale target''))))
     = Inr \<lparr>Requeue = False, RequeueAfter = 0\<rparr>
   \<and> map_sum id ret_err
       (Reconcile
          (example_env
             (example_recommendation (example_spec ''Once'' None None) (example_status [] None))
             10000000000 (Inl (Err False ''no scale target''))))
     = Inr (Some (Err False ''no scale target''))
   \<and> map_sum id ret_Result
       (Reconcile
          (example_env
             (example_recommendation (example_spec ''Once'' None None) (example_status [] None))
             10000000000 (Inr (Inl (Err False ''no metrics'')))))
     = Inr \<lparr>Requeue = False, RequeueAfter = ErrorFallbackPeriod\<rparr>
   \<and> map_sum id ret_err
       (Reconcile
          (example_env
             (example_recommendation (example_spec ''Once'' None None) (example_status [] None))
             10000000000 (Inr (Inl (Err False ''no metrics'')))))
     = Inr (Some (Err False ''no metrics''))
   \<and> sint ErrorFallbackPeriod = 5 * 1000000000"
  by (simp add: Reconcile_def NeedRecommend_def NeedRecommend_Periodical_def
        timeoutSeconds_of_def DefaultTimeoutSeconds_def Time_After_def Time_Add_def Second_def
        CompletionStrategyOnce_def CompletionStrategyPeriodical_def
        UpdateStatus_def setCondition_def ctrl_Result_empty_def Let_def ErrorFallbackPeriod_def
        example_env_def example_recommendation_def example_spec_def example_status_def)

section \<open>The success timestamp\<close>

text \<open>
  Claim C4, as the spec states it, at a concrete input: the status holds a condition of
  another type with reason RecommendationReady and status True, and the update sets
  Ready to False after a failed offer. No condition has type Ready, status True and
  reason RecommendationReady, yet the update stamps \<^verbatim>\<open>LastSuccessfulTime\<close>.
\<close>

theorem UpdateStatus_ready_counterexample:
  "Conditions
     (setCondition
        (example_status
           [example_condition ''Synced'' ConditionTrue ''RecommendationReady'' ''ok'' 1] None)
        ''Ready'' ConditionFalse ''FailedOfferRecommend'' ''no'' 9)
     = [example_condition ''Synced'' ConditionTrue ''RecommendationReady'' ''ok'' 1,
        example_condition ''Ready'' ConditionFalse ''FailedOfferRecommend'' ''no'' 9]
   \<and> LastSuccessfulTime
       (Status
          (example_recommendation (example_spec ''Periodical'' (Some 300) None)
             (example_status
                [example_condition ''Synced'' ConditionTrue ''RecommendationReady'' ''ok'' 1]
                None)))
     = None
   \<and> LastSuccessfulTime
       (Status (fst
          (UpdateStatus
             (example_recommendation (example_spec ''Periodical'' (Some 300) None)
                (example_status
                   [example_condition ''Synced'' ConditionTrue ''RecommendationReady'' ''ok'' 1]
                   None))
             (setCondition
                (example_status
                   [example_condition ''Synced'' ConditionTrue ''RecommendationReady'' ''ok'' 1]
                   None)
                ''Ready'' ConditionFalse ''FailedOfferRecommend'' ''no'' 9)
             9 None)))
     = Some 9"
  by (simp add: UpdateStatus_def setCondition_def Let_def
        example_recommendation_def example_spec_def example_status_def example_condition_def)

text \<open>
  Claim C4, amended. UpdateStatus sets \<^verbatim>\<open>LastSuccessfulTime\<close> to the new
  \<^verbatim>\<open>LastUpdateTime\<close> exactly when the new status differs from the current one and holds
  a condition with status True and reason RecommendationReady, of whatever type; then
  the object is handed to \<^verbatim>\<open>c.Update\<close>. A changed status with no such condition keeps
  the \<^verbatim>\<open>LastSuccessfulTime\<close> of the new status, and an unchanged status leaves the
  object as it is, with no write.
\<close>

theorem UpdateStatus_LastSuccessfulTime_advance:
  "(Status r \<noteq> ns
      \<and> (\<exists>c\<in>set (Conditions ns). CondStatus c = ConditionTrue \<and> Reason c = ''RecommendationReady'')
    \<longrightarrow> LastSuccessfulTime (Status (fst (UpdateStatus r ns now u)))
          = Some (LastUpdateTime (Status (fst (UpdateStatus r ns now u))))
        \<and> LastUpdateTime (Status (fst (UpdateStatus r ns now u))) = now
        \<and> Update (fst (UpdateStatus r ns now u)) \<in> set (snd (UpdateStatus r ns now u)))
   \<and> (Status r \<noteq> ns
      \<and> \<not> (\<exists>c\<in>set (Conditions ns). CondStatus c = ConditionTrue \<and> Reason c = ''RecommendationReady'')
    \<longrightarrow> LastSuccessfulTime (Status (fst (UpdateStatus r ns now u))) = LastSuccessfulTime ns)
   \<and> (Status r = ns \<longrightarrow> UpdateStatus r ns now u = (r, []))"
proof -
  have ready: "ready_loop (Conditions ns) \<longleftrightarrow>
      (\<exists>c\<in>set (Conditions ns). CondStatus c = ConditionTrue \<and> Reason c = ''RecommendationReady'')"
    by (auto simp add: ready_loop_iff)
  show ?thesis
    unfolding ready [symmetric]
    by (simp add: UpdateStatus_LastSuccessfulTime UpdateStatus_LastUpdateTime
          UpdateStatus_changed_write UpdateStatus_unchanged)
qed

theorem UpdateStatus_LastSuccessfulTime_advance_witness:
  "UpdateStatus
     (example_recommendation (example_spec ''Periodical'' (Some 300) None)
        (example_ready_status 5))
     (example_ready_status 5) 9 None
     = (example_recommendation (example_spec ''Periodical'' (Some 300) None)
          (example_ready_status 5), [])
   \<and> LastSuccessfulTime
       (Status (fst
          (UpdateStatus
             (example_recommendation (example_spec ''Periodical'' (Some 300) None)
                (example_status [] None))
             (example_ready_status 5) 9 None)))
     = Some 9
   \<and> LastSuccessfulTime
       (Status (fst
          (UpdateStatus
             (example_recommendation (example_spec ''Periodical'' (Some 300) None)
                (example_ready_status 5))
             (example_status
                [example_condition ''Ready'' ConditionFalse ''FailedOfferRecommend'' ''no'' 7]
                (Some 5))
             9 None)))
     = Some 5"
  using
    UpdateStatus_LastSuccessfulTime_advance
      [of "example_recommendation (example_spec ''Periodical'' (Some 300) None)
             (example_ready_status 5)"
          "example_ready_status 5" 9 None]
    UpdateStatus_LastSuccessfulTime_advance
      [of "example_recommendation (example_spec ''Periodical'' (Some 300) None)
             (example_status [] None)"
          "example_ready_status 5" 9 None]
    UpdateStatus_LastSuccessfulTime_advance
      [of "example_recommendation (example_spec ''Periodical'' (Some 300) None)
             (example_ready_status 5)"
          "example_status
             [example_condition ''Ready'' ConditionFalse ''FailedOfferRecommend'' ''no'' 7]
             (Some 5)" 9 None]
  by (simp add: example_recommendation_def example_spec_def example_status_def
        example_ready_status_def example_condition_def)

section \<open>Reconcile after the recommender\<close>

text \<open>
  Claim C7. When Reconcile runs the recommender and \<^verbatim>\<open>NewRecommender\<close> fails, or
  \<^verbatim>\<open>Offer\<close> fails, it returns with the object's status holding a Ready condition with
  status False, the reason of that failure (FailedCreateRecommender, FailedOfferRecommend)
  and a message that ends with the error text; \<^verbatim>\<open>ResourceRequest\<close> and
  \<^verbatim>\<open>EffectiveHPA\<close> are those of the fetched status, in the object and in whatever is
  handed to \<^verbatim>\<open>c.Update\<close>.
\<close>

theorem Reconcile_failure_status:
  assumes "Get_result env = Inr r" and "DeletionTimestamp r = None"
    and "NeedRecommend r (NeedRecommend_Now env) = Inr (True, b)"
    and "NewRecommender_result env = Inl e \<or> NewRecommender_result env = Inr (Inl e)"
  shows "\<exists>out r'. Reconcile env = Inr out \<and> object out = Some r'
    \<and> (\<exists>c\<in>set (Conditions (Status r')).
          Type c = ''Ready'' \<and> CondStatus c = ConditionFalse
          \<and> Reason c = (if NewRecommender_result env = Inl e
                         then ''FailedCreateRecommender'' else ''FailedOfferRecommend'')
          \<and> Message c = (if NewRecommender_result env = Inl e
                          then ''Failed to create recommender, Recommendation ''
                          else ''Failed to offer recommend, Recommendation '')
                         @ KObj r @ '' error '' @ ErrorText e)
    \<and> ResourceRequest (Status r') = ResourceRequest (Status r)
    \<and> EffectiveHPA (Status r') = EffectiveHPA (Status r)
    \<and> (\<forall>w. Update w \<in> set (trace out) \<longrightarrow> w = r')"
proof (cases "NewRecommender_result env = Inl e")
  case True
  let ?ns = "setCondition (Status r) ''Ready'' ConditionFalse ''FailedCreateRecommender''
               (''Failed to create recommender, Recommendation '' @ KObj r @ '' error '' @ ErrorText e)
               (setCondition_Now env)"
  let ?upd = "UpdateStatus r ?ns (UpdateStatus_Now env) (Update_result env)"
  have run: "Reconcile env =
      Inr \<lparr>ret_Result = ctrl_Result_empty, ret_err = Some e, object = Some (fst ?upd),
           trace = [NewRecommenderCall, Event ''FailedCreateRecommender'' (ErrorText e)] @ snd ?upd\<rparr>"
    using Reconcile_create_failed [OF assms(1-3) True] by (simp add: Let_def)
  have cond: "\<exists>c\<in>set (Conditions (Status (fst ?upd))).
          Type c = ''Ready'' \<and> CondStatus c = ConditionFalse
          \<and> Reason c = ''FailedCreateRecommender''
          \<and> Message c = ''Failed to create recommender, Recommendation ''
                         @ KObj r @ '' error '' @ ErrorText e"
    using setCondition_contains [of "Status r" "''Ready''" ConditionFalse "''FailedCreateRecommender''"
        "''Failed to create recommender, Recommendation '' @ KObj r @ '' error '' @ ErrorText e"
        "setCondition_Now env"]
    unfolding UpdateStatus_Conditions by blast
  have frame: "ResourceRequest (Status (fst ?upd)) = ResourceRequest (Status r)"
    "EffectiveHPA (Status (fst ?upd)) = EffectiveHPA (Status r)"
    by (simp_all add: UpdateStatus_ResourceRequest UpdateStatus_EffectiveHPA setCondition_frame)
  have written: "\<forall>w. Update w \<in> set (snd ?upd) \<longrightarrow> w = fst ?upd"
    using UpdateStatus_written by blast
  show ?thesis
    unfolding run using True cond frame written by simp
next
  case False
  with assms(4) have offer: "NewRecommender_result env = Inr (Inl e)" by simp
  let ?ns = "setCondition (Status r) ''Ready'' ConditionFalse ''FailedOfferRecommend''
               (''Failed to offer recommend, Recommendation '' @ KObj r @ '' error '' @ ErrorText e)
               (setCondition_Now env)"
  let ?upd = "UpdateStatus r ?ns (UpdateStatus_Now env) (Update_result env)"
  have run: "Reconcile env =
      Inr \<lparr>ret_Result = \<lparr>Requeue = False, RequeueAfter = ErrorFallbackPeriod\<rparr>,
           ret_err = Some e, object = Some (fst ?upd),
           trace = [NewRecommenderCall, OfferCall,
                    Event ''FailedOfferRecommendation'' (ErrorText e)] @ snd ?upd\<rparr>"
    using Reconcile_offer_failed [OF assms(1-3) offer] by (simp add: Let_def)
  have cond: "\<exists>c\<in>set (Conditions (Status (fst ?upd))).
          Type c = ''Ready'' \<and> CondStatus c = ConditionFalse
          \<and> Reason c = ''FailedOfferRecommend''
          \<and> Message c = ''Failed to offer recommend, Recommendation ''
                         @ KObj r @ '' error '' @ ErrorText e"
    using setCondition_contains [of "Status r" "''Ready''" ConditionFalse "''FailedOfferRecommend''"
        "''Failed to offer recommend, Recommendation '' @ KObj r @ '' error '' @ ErrorText e"
        "setCondition_Now env"]
    unfolding UpdateStatus_Conditions by blast
  have frame: "ResourceRequest (Status (fst ?upd)) = ResourceRequest (Status r)"
    "EffectiveHPA (Status (fst ?upd)) = EffectiveHPA (Status r)"
    by (simp_all add: UpdateStatus_ResourceRequest UpdateStatus_EffectiveHPA setCondition_frame)
  have written: "\<forall>w. Update w \<in> set (snd ?upd) \<longrightarrow> w = fst ?upd"
    using UpdateStatus_written by blast
  show ?thesis
    unfolding run using False cond frame written by simp
qed

theorem Reconcile_failure_status_witness:
  "Get_result
     (example_env
        (example_recommendation (example_spec ''Periodical'' (Some 300) None)
           (example_ready_status 5))
        10000000000 (Inr (Inl (Err False ''no metrics''))))
     = Inr (example_recommendation (example_spec ''Periodical'' (Some 300) None)
              (example_ready_status 5))
   \<and> DeletionTimestamp
       (example_recommendation (example_spec ''Periodical'' (Some 300) None)
          (example_ready_status 5)) = None
   \<and> NeedRecommend
       (example_recommendation (example_spec ''Periodical'' (Some 300) None)
          (example_ready_status 5)) 10000000000 = Inr (True, False)
   \<and> (\<exists>out r'.
        Reconcile
          (example_env
             (example_recommendation (example_spec ''Periodical'' (Some 300) None)
                (example_ready_status 5))
             10000000000 (Inr (Inl (Err False ''no metrics''))))
          = Inr out
        \<and> object out = Some r'
        \<and> (\<exists>c\<in>set (Conditions (Status r')).
              Type c = ''Ready'' \<and> CondStatus c = ConditionFalse
              \<and> Reason c = ''FailedOfferRecommend''
              \<and> Message c =
                  ''Failed to offer recommend, Recommendation default/rec error no metrics'')
        \<and> ResourceRequest (Status r') = 1
        \<and> EffectiveHPA (Status r') = 2
        \<and> (\<forall>w. Update w \<in> set (trace out) \<longrightarrow> w = r'))"
proof -
  let ?r = "example_recommendation (example_spec ''Periodical'' (Some 300) None)
              (example_ready_status 5)"
  let ?env = "example_env ?r 10000000000 (Inr (Inl (Err False ''no metrics'')))"
  have get: "Get_result ?env = Inr ?r"
    by (simp add: example_env_def)
  have alive: "DeletionTimestamp ?r = None"
    by (simp add: example_recommendation_def)
  have run: "NeedRecommend ?r (NeedRecommend_Now ?env) = Inr (True, False)"
    by (simp add: NeedRecommend_def NeedRecommend_Periodical_def
          timeoutSeconds_of_def DefaultTimeoutSeconds_def Time_After_def Time_Add_def Second_def
          CompletionStrategyOnce_def CompletionStrategyPeriodical_def
          example_env_def example_recommendation_def example_spec_def example_ready_status_def)
  have failed: "NewRecommender_result ?env = Inl (Err False ''no metrics'')
      \<or> NewRecommender_result ?env = Inr (Inl (Err False ''no metrics''))"
    by (simp add: example_env_def)
  have now: "NeedRecommend_Now ?env = 10000000000"
    by (simp add: example_env_def)
  have other: "NewRecommender_result ?env \<noteq> Inl (Err False ''no metrics'')"
    by (simp add: example_env_def)
  have kobj: "KObj ?r = ''default/rec''"
    by (simp add: KObj_def example_recommendation_def)
  have payload: "ResourceRequest (Status ?r) = 1" "EffectiveHPA (Status ?r) = 2"
    by (simp_all add: example_recommendation_def example_ready_status_def)
  from Reconcile_failure_status [OF get alive run failed]
  have "\<exists>out r'. Reconcile ?env = Inr out \<and> object out = Some r'
        \<and> (\<exists>c\<in>set (Conditions (Status r')).
              Type c = ''Ready'' \<and> CondStatus c = ConditionFalse
              \<and> Reason c = ''FailedOfferRecommend''
              \<and> Message c =
                  ''Failed to offer recommend, Recommendation default/rec error no metrics'')
        \<and> ResourceRequest (Status r') = 1
        \<and> EffectiveHPA (Status r') = 2
        \<and> (\<forall>w. Update w \<in> set (trace out) \<longrightarrow> w = r')"
    unfolding kobj payload using other by simp
  with get alive run now show ?thesis by simp
qed

text \<open>
  Claim C10. When \<^verbatim>\<open>Offer\<close> succeeds, Reconcile sets the Ready condition to True with
  reason RecommendationReady, calls UpdateStatus and returns the empty result with a nil
  error. With a nil proposal \<^verbatim>\<open>ResourceRequest\<close> and \<^verbatim>\<open>EffectiveHPA\<close> stay those of
  the fetched status; if the status with the new condition differs from the fetched one
  it is handed to \<^verbatim>\<open>c.Update\<close> with \<^verbatim>\<open>LastSuccessfulTime\<close> and \<^verbatim>\<open>LastUpdateTime\<close> at
  the clock reading, otherwise nothing is written. With a proposal, its two payloads are
  the ones in the status.
\<close>

theorem Reconcile_nil_proposal:
  assumes "Get_result env = Inr r" and "DeletionTimestamp r = None"
    and "NeedRecommend r (NeedRecommend_Now env) = Inr (True, b)"
    and "NewRecommender_result env = Inr (Inr proposed)"
  shows "\<exists>out r'. Reconcile env = Inr out
    \<and> ret_Result out = \<lparr>Requeue = False, RequeueAfter = 0\<rparr> \<and> ret_err out = None
    \<and> object out = Some r'
    \<and> (\<exists>c\<in>set (Conditions (Status r')).
          Type c = ''Ready'' \<and> CondStatus c = ConditionTrue
          \<and> Reason c = ''RecommendationReady'' \<and> Message c = ''Recommendation is ready'')
    \<and> (proposed = None \<longrightarrow>
          ResourceRequest (Status r') = ResourceRequest (Status r)
          \<and> EffectiveHPA (Status r') = EffectiveHPA (Status r)
          \<and> (Status r \<noteq> setCondition (Status r) ''Ready'' ConditionTrue ''RecommendationReady''
                            ''Recommendation is ready'' (setCondition_Now env)
              \<longrightarrow> Update r' \<in> set (trace out)
                  \<and> LastSuccessfulTime (Status r') = Some (UpdateStatus_Now env)
                  \<and> LastUpdateTime (Status r') = UpdateStatus_Now env)
          \<and> (Status r = setCondition (Status r) ''Ready'' ConditionTrue ''RecommendationReady''
                            ''Recommendation is ready'' (setCondition_Now env)
              \<longrightarrow> r' = r \<and> trace out = [NewRecommenderCall, OfferCall]))
    \<and> (\<forall>p. proposed = Some p \<longrightarrow>
          ResourceRequest (Status r') = ProposedResourceRequest p
          \<and> EffectiveHPA (Status r') = ProposedEffectiveHPA p)"
proof -
  let ?s = "case proposed of None \<Rightarrow> Status r
            | Some p \<Rightarrow> (Status r)\<lparr>ResourceRequest := ProposedResourceRequest p,
                                     EffectiveHPA := ProposedEffectiveHPA p\<rparr>"
  let ?ns = "setCondition ?s ''Ready'' ConditionTrue ''RecommendationReady''
               ''Recommendation is ready'' (setCondition_Now env)"
  let ?upd = "UpdateStatus r ?ns (UpdateStatus_Now env) (Update_result env)"
  have run: "Reconcile env =
      Inr \<lparr>ret_Result = ctrl_Result_empty, ret_err = None, object = Some (fst ?upd),
           trace = [NewRecommenderCall, OfferCall] @ snd ?upd\<rparr>"
    using Reconcile_offered [OF assms] by (simp add: Let_def)
  have cond: "\<exists>c\<in>set (Conditions (Status (fst ?upd))).
          Type c = ''Ready'' \<and> CondStatus c = ConditionTrue
          \<and> Reason c = ''RecommendationReady'' \<and> Message c = ''Recommendation is ready''"
    using setCondition_contains [of ?s "''Ready''" ConditionTrue "''RecommendationReady''"
        "''Recommendation is ready''" "setCondition_Now env"]
    unfolding UpdateStatus_Conditions by blast
  have payload_nil: "proposed = None \<longrightarrow>
          ResourceRequest (Status (fst ?upd)) = ResourceRequest (Status r)
          \<and> EffectiveHPA (Status (fst ?upd)) = EffectiveHPA (Status r)"
    by (simp add: UpdateStatus_ResourceRequest UpdateStatus_EffectiveHPA setCondition_frame)
  have payload_some: "\<forall>p. proposed = Some p \<longrightarrow>
          ResourceRequest (Status (fst ?upd)) = ProposedResourceRequest p
          \<and> EffectiveHPA (Status (fst ?upd)) = ProposedEffectiveHPA p"
    by (simp add: UpdateStatus_ResourceRequest UpdateStatus_EffectiveHPA setCondition_frame)
  have stamp: "Status r \<noteq> ?ns \<longrightarrow>
        Update (fst ?upd) \<in> set (snd ?upd)
        \<and> LastSuccessfulTime (Status (fst ?upd)) = Some (UpdateStatus_Now env)
        \<and> LastUpdateTime (Status (fst ?upd)) = UpdateStatus_Now env"
    by (simp add: UpdateStatus_changed_write UpdateStatus_LastSuccessfulTime
          UpdateStatus_LastUpdateTime setCondition_ready)
  have same: "Status r = ?ns \<longrightarrow> fst ?upd = r \<and> snd ?upd = []"
    by (simp add: UpdateStatus_unchanged)
  show ?thesis
    unfolding run
    using cond payload_nil payload_some stamp same
    by (cases proposed) (simp_all add: ctrl_Result_empty_def)
qed

theorem Reconcile_nil_proposal_witness:
  "Get_result
     (example_env
        (example_recommendation (example_spec ''Periodical'' (Some 300) None)
           (example_ready_status 5))
        10000000000 (Inr (Inr None)))
     = Inr (example_recommendation (example_spec ''Periodical'' (Some 300) None)
              (example_ready_status 5))
   \<and> DeletionTimestamp
       (example_recommendation (example_spec ''Periodical'' (Some 300) None)
          (example_ready_status 5)) = None
   \<and> NeedRecommend
       (example_recommendation (example_spec ''Periodical'' (Some 300) None)
          (example_ready_status 5)) 10000000000 = Inr (True, False)
   \<and> (\<exists>out r'.
        Reconcile
          (example_env
             (example_recommendation (example_spec ''Periodical'' (Some 300) None)
                (example_ready_status 5))
             10000000000 (Inr (Inr None)))
          = Inr out
        \<and> ret_Result out = \<lparr>Requeue = False, RequeueAfter = 0\<rparr> \<and> ret_err out = None
        \<and> object out = Some r'
        \<and> ResourceRequest (Status r') = 1
        \<and> EffectiveHPA (Status r') = 2
        \<and> Update r' \<in> set (trace out)
        \<and> LastSuccessfulTime (Status r') = Some 10000000000)"
proof -
  let ?r = "example_recommendation (example_spec ''Periodical'' (Some 300) None)
              (example_ready_status 5)"
  let ?env = "example_env ?r 10000000000 (Inr (Inr None))"
  have get: "Get_result ?env = Inr ?r"
    by (simp add: example_env_def)
  have alive: "DeletionTimestamp ?r = None"
    by (simp add: example_recommendation_def)
  have run: "NeedRecommend ?r (NeedRecommend_Now ?env) = Inr (True, False)"
    by (simp add: NeedRecommend_def NeedRecommend_Periodical_def
          timeoutSeconds_of_def DefaultTimeoutSeconds_def Time_After_def Time_Add_def Second_def
          CompletionStrategyOnce_def CompletionStrategyPeriodical_def
          example_env_def example_recommendation_def example_spec_def example_ready_status_def)
  have offered: "NewRecommender_result ?env = Inr (Inr None)"
    by (simp add: example_env_def)
  have now: "NeedRecommend_Now ?env = 10000000000" "UpdateStatus_Now ?env = 10000000000"
    by (simp_all add: example_env_def)
  have payload: "ResourceRequest (Status ?r) = 1" "EffectiveHPA (Status ?r) = 2"
    by (simp_all add: example_recommendation_def example_ready_status_def)
  have changed: "Status ?r \<noteq> setCondition (Status ?r) ''Ready'' ConditionTrue
                   ''RecommendationReady'' ''Recommendation is ready'' (setCondition_Now ?env)"
    by (simp add: setCondition_def example_env_def example_recommendation_def
          example_ready_status_def example_condition_def)
  from Reconcile_nil_proposal [OF get alive run offered]
  have "\<exists>out r'. Reconcile ?env = Inr out
        \<and> ret_Result out = \<lparr>Requeue = False, RequeueAfter = 0\<rparr> \<and> ret_err out = None
        \<and> object out = Some r'
        \<and> ResourceRequest (Status r') = 1
        \<and> EffectiveHPA (Status r') = 2
        \<and> Update r' \<in> set (trace out)
        \<and> LastSuccessfulTime (Status r') = Some 10000000000"
    unfolding payload now using changed by auto
  with get alive run now show ?thesis by simp
qed

end
